theory Spec2Isabelle
  imports Complex_Main "HOL-Library.AList"
begin

section \<open>The chromem-go vector store adapter of langchaingo\<close>

text \<open>
  A shallow embedding of package \<open>chromem\<close> (the store and its options): \<open>New\<close>,
  \<open>applyClientOptions\<close>, the \<open>With...\<close> options, \<open>getOptions\<close>, \<open>validateOptions\<close>,
  \<open>AddDocuments\<close> and \<open>SimilaritySearch\<close>. The vector database (chromem-go), the embedder
  and the UUID generator are external: their operations are parameters of the model, and
  every theorem holds for each behaviour they may have.
\<close>

subsection \<open>Go values\<close>

text \<open>
  A \<open>float32\<close> is only compared here, never computed with. Its values are the finite
  ones (all rational), the two infinities and NaN; a comparison with NaN is false.
\<close>

datatype float32 = NaN | NegInf | Fin rat | PosInf

fun f32_less :: "float32 \<Rightarrow> float32 \<Rightarrow> bool" where
  "f32_less NaN _ = False"
| "f32_less _ NaN = False"
| "f32_less _ NegInf = False"
| "f32_less NegInf _ = True"
| "f32_less PosInf _ = False"
| "f32_less _ PosInf = True"
| "f32_less (Fin a) (Fin b) = (a < b)"

definition f32_greater :: "float32 \<Rightarrow> float32 \<Rightarrow> bool" where
  "f32_greater a b = f32_less b a"

definition f32_ge :: "float32 \<Rightarrow> float32 \<Rightarrow> bool" where
  "f32_ge a b = (a \<noteq> NaN \<and> b \<noteq> NaN \<and> \<not> f32_less a b)"

text \<open>
  A Go map is \<open>nil\<close> (\<open>None\<close>) or holds entries; the list gives them in the order in
  which \<open>range\<close> visits them. Go fixes no such order, so a theorem for every list is a
  theorem for every order. \<open>m[k] = v\<close> is \<open>AList.update\<close>.
\<close>

type_synonym 'v gomap = "(string \<times> 'v) list option"

definition go_len :: "'v gomap \<Rightarrow> nat" where
  "go_len m = (case m of None \<Rightarrow> 0 | Some kvs \<Rightarrow> length kvs)"

definition go_range :: "'v gomap \<Rightarrow> (string \<times> 'v) list" where
  "go_range m = (case m of None \<Rightarrow> [] | Some kvs \<Rightarrow> kvs)"



text \<open>The values of the empty interface \<open>any\<close> that the adapter tells apart.\<close>

datatype any =
    AnyNil
  | AnyString string
  | AnyInt int
  | AnyBool bool
  | AnyFloat float32
  | AnyMapStringString "(string \<times> string) list option"
  | AnyMapStringAny "(string \<times> any) list option"

subsection \<open>Types of the surrounding framework and of the engine\<close>

text \<open>
  Modelled from the spec: \<open>schema.Document\<close> is declared outside the files at hand:
  a content string, a mapping of string keys to values, and a similarity score.
\<close>

record Document =
  PageContent :: string
  Metadata :: "any gomap"
  Score :: float32

text \<open>The embedder interface, as the two methods the adapter calls.\<close>

record embeddings_Embedder =
  EmbedDocuments :: "string list \<Rightarrow> string + float32 list list"
  EmbedQuery :: "string \<Rightarrow> string + float32 list"

text \<open>
  Modelled from the spec: \<open>vectorstores.Options\<close> and its option functions are declared
  outside the files at hand: namespace override, score threshold, metadata filter,
  per-call embedder override and deduplication hook, each option setting its field.
\<close>

record Options =
  NameSpace :: string
  ScoreThreshold :: float32
  Filters :: any
  Embedder :: "embeddings_Embedder option"
  Deduplicater :: "(Document \<Rightarrow> bool) option"

type_synonym vectorstores_Option = "Options \<Rightarrow> Options"

definition WithNameSpace :: "string \<Rightarrow> vectorstores_Option" where
  "WithNameSpace nameSpace = (\<lambda>opts. opts\<lparr>NameSpace := nameSpace\<rparr>)"

definition WithScoreThreshold :: "float32 \<Rightarrow> vectorstores_Option" where
  "WithScoreThreshold scoreThreshold = (\<lambda>opts. opts\<lparr>ScoreThreshold := scoreThreshold\<rparr>)"

definition WithFilters :: "any \<Rightarrow> vectorstores_Option" where
  "WithFilters filters = (\<lambda>opts. opts\<lparr>Filters := filters\<rparr>)"

definition vectorstores_WithEmbedder :: "embeddings_Embedder option \<Rightarrow> vectorstores_Option" where
  "vectorstores_WithEmbedder e = (\<lambda>opts. opts\<lparr>Embedder := e\<rparr>)"

definition WithDeduplicater :: "(Document \<Rightarrow> bool) option \<Rightarrow> vectorstores_Option" where
  "WithDeduplicater fn = (\<lambda>opts. opts\<lparr>Deduplicater := fn\<rparr>)"

text \<open>The documents and query results of chromem-go, with the fields the adapter uses.\<close>

record chromemgo_Document =
  ID :: string
  DocMetadata :: "string gomap"
  Embedding :: "float32 list"
  Content :: string

record chromemgo_Result =
  ResContent :: string
  ResMetadata :: "string gomap"
  Similarity :: float32

type_synonym EmbeddingFunc = "string \<Rightarrow> string + float32 list"

text \<open>
  The engine: the operations of chromem-go that the adapter calls, over a database
  state \<open>'db\<close> and collection handles \<open>'c\<close>. Each operation that works on the database
  returns the state it leaves; an error is the message of the engine.
\<close>

record ('db, 'c) engine =
  NewDB :: 'db
  NewPersistentDB :: "string \<Rightarrow> bool \<Rightarrow> string + 'db"
  GetOrCreateCollection :: "'db \<Rightarrow> string \<Rightarrow> string gomap \<Rightarrow> EmbeddingFunc option \<Rightarrow> (string + 'c) \<times> 'db"
  GetCollection :: "'db \<Rightarrow> string \<Rightarrow> EmbeddingFunc option \<Rightarrow> 'c option \<times> 'db"
  AddDocument :: "'c \<Rightarrow> chromemgo_Document \<Rightarrow> 'db \<Rightarrow> string option \<times> 'db"
  Query :: "'c \<Rightarrow> string \<Rightarrow> int \<Rightarrow> string gomap \<Rightarrow> 'db \<Rightarrow> (string + chromemgo_Result list) \<times> 'db"

subsection \<open>Errors\<close>

datatype validation_error =
    UnsupportedOptions
  | NamespaceIsEmpty
  | ScoreThresholdOutOfRange
  | FiltersWrongType

datatype panic = NilDereference | IndexOutOfRange | TypeAssertionFailed

datatype error =
    EmbedderIsRequired
  | CouldntCreatePersistentDB string
  | InvalidOptions validation_error
  | CouldntGetOrCreateCollection string
  | CouldntEmbedDocuments string
  | OnlyStringValuesSupported
  | CouldntAddDocument string
  | NamespaceDoesntExist
  | CouldntQueryCollection string
  | Panic panic

subsection \<open>The store and its construction options\<close>

record 'db Store =
  persistent :: bool
  persistPath :: string
  compress :: bool
  defaultCollectionName :: string
  embedder :: "embeddings_Embedder option"
  db :: "'db option"
  ef :: "EmbeddingFunc option"

definition defaultPersistPath :: string where
  "defaultPersistPath = ''./langchaingo''"

definition defaultCompress :: bool where
  "defaultCompress = False"

type_synonym 'db Option = "'db Store \<Rightarrow> 'db Store"

definition WithPersistence :: "string \<Rightarrow> bool \<Rightarrow> 'db Option" where
  "WithPersistence path compress' =
     (\<lambda>s. s\<lparr>persistent := True, persistPath := path, compress := compress'\<rparr>)"


definition WithEmbedder :: "embeddings_Embedder option \<Rightarrow> 'db Option" where
  "WithEmbedder embedder' = (\<lambda>p. p\<lparr>embedder := embedder'\<rparr>)"

text \<open>The store that \<open>applyClientOptions\<close> starts from: the defaults, every other field zero.\<close>

definition initialStore :: "'db Store" where
  "initialStore =
     \<lparr>persistent = False, persistPath = defaultPersistPath, compress = defaultCompress,
      defaultCollectionName = [], embedder = None, db = None, ef = None\<rparr>"

definition applyOptions :: "'db Option list \<Rightarrow> 'db Store \<Rightarrow> 'db Store" where
  "applyOptions opts s = fold (\<lambda>opt s'. opt s') opts s"

definition applyClientOptions :: "'db Option list \<Rightarrow> error + 'db Store" where
  "applyClientOptions opts =
     (let s = applyOptions opts initialStore
      in if embedder s = None then Inl EmbedderIsRequired else Inr s)"

definition queryEmbeddingFunc :: "'db Store \<Rightarrow> EmbeddingFunc" where
  "queryEmbeddingFunc s =
     (\<lambda>text. case embedder s of None \<Rightarrow> Inl ''nil embedder'' | Some e \<Rightarrow> EmbedQuery e text)"

definition New :: "('db, 'c) engine \<Rightarrow> 'db Option list \<Rightarrow> error + 'db Store" where
  "New eng opts =
     (case applyClientOptions opts of
        Inl err \<Rightarrow> Inl err
      | Inr s \<Rightarrow>
          if persistent s then
            (case NewPersistentDB eng (persistPath s) (compress s) of
               Inl err \<Rightarrow> Inl (CouldntCreatePersistentDB err)
             | Inr d \<Rightarrow> Inr (s\<lparr>db := Some d, ef := Some (queryEmbeddingFunc s)\<rparr>))
          else Inr (s\<lparr>db := Some (NewDB eng), ef := Some (queryEmbeddingFunc s)\<rparr>))"

subsection \<open>Resolving and validating the options of a call\<close>

definition getOptions :: "Options \<Rightarrow> vectorstores_Option list \<Rightarrow> Options" where
  "getOptions defaults opts = fold (\<lambda>opt res. opt res) opts defaults"

text \<open>\<open>vectorstores.Options{NameSpace: s.defaultCollectionName}\<close>: the other fields are zero.\<close>

definition callDefaults :: "'db Store \<Rightarrow> Options" where
  "callDefaults s =
     \<lparr>NameSpace = defaultCollectionName s, ScoreThreshold = Fin 0, Filters = AnyNil,
      Embedder = None, Deduplicater = None\<rparr>"

fun isMapStringString :: "any \<Rightarrow> bool" where
  "isMapStringString (AnyMapStringString m) = True"
| "isMapStringString _ = False"

definition validateOptions :: "Options \<Rightarrow> validation_error option" where
  "validateOptions opts =
     (if Deduplicater opts \<noteq> None \<or> Embedder opts \<noteq> None then Some UnsupportedOptions
      else if NameSpace opts = [] then Some NamespaceIsEmpty
      else if f32_less (ScoreThreshold opts) (Fin 0) \<or> f32_greater (ScoreThreshold opts) (Fin 1)
        then Some ScoreThresholdOutOfRange
      else if Filters opts \<noteq> AnyNil \<and> \<not> isMapStringString (Filters opts)
        then Some FiltersWrongType
      else None)"

subsection \<open>AddDocuments\<close>

text \<open>
  Lines 214 to 224: the metadata of a document as the string map the engine stores.
  The map stays \<open>nil\<close> for a document without metadata.
\<close>

fun stringValues :: "(string \<times> any) list \<Rightarrow> (string \<times> string) list \<Rightarrow> error + (string \<times> string) list" where
  "stringValues [] metadata = Inr metadata"
| "stringValues ((k, v) # kvs) metadata =
     (case v of
        AnyString vString \<Rightarrow> stringValues kvs (AList.update k vString metadata)
      | _ \<Rightarrow> Inl OnlyStringValuesSupported)"

definition stringMetadata :: "any gomap \<Rightarrow> error + string gomap" where
  "stringMetadata m =
     (if go_len m > 0 then
        (case stringValues (go_range m) [] of
           Inl err \<Rightarrow> Inl err
         | Inr metadata \<Rightarrow> Inr (Some metadata))
      else Inr None)"

text \<open>
  The loop over the documents. \<open>uuids i\<close> is the string that the call of
  \<open>uuid.NewString\<close> in iteration \<open>i\<close> returns; \<open>ids\<close> is the slice built so far.
  \<open>embeddings[i]\<close> panics when the embedder returned too few vectors.
\<close>

fun addLoop :: "('db, 'c) engine \<Rightarrow> 'c \<Rightarrow> float32 list list \<Rightarrow> (nat \<Rightarrow> string) \<Rightarrow> nat \<Rightarrow>
    Document list \<Rightarrow> string list \<Rightarrow> 'db \<Rightarrow> (error + string list) \<times> 'db" where
  "addLoop eng c embeddings uuids i [] ids d = (Inr ids, d)"
| "addLoop eng c embeddings uuids i (doc # docs) ids d =
     (let id' = uuids i in
      case stringMetadata (Metadata doc) of
        Inl err \<Rightarrow> (Inl err, d)
      | Inr metadata \<Rightarrow>
          if length embeddings \<le> i then (Inl (Panic IndexOutOfRange), d)
          else
            (case AddDocument eng c
                    \<lparr>ID = id', DocMetadata = metadata, Embedding = embeddings ! i,
                     Content = PageContent doc\<rparr> d of
               (Some err, d') \<Rightarrow> (Inl (CouldntAddDocument err), d')
             | (None, d') \<Rightarrow> addLoop eng c embeddings uuids (Suc i) docs (ids @ [id']) d'))"

definition AddDocuments :: "('db, 'c) engine \<Rightarrow> 'db Store \<Rightarrow> Document list \<Rightarrow>
    vectorstores_Option list \<Rightarrow> (nat \<Rightarrow> string) \<Rightarrow> (error + string list) \<times> 'db Store" where
  "AddDocuments eng s docs options uuids =
     (let opts = getOptions (callDefaults s) options in
      case validateOptions opts of
        Some err \<Rightarrow> (Inl (InvalidOptions err), s)
      | None \<Rightarrow>
         (case db s of
            None \<Rightarrow> (Inl (Panic NilDereference), s)
          | Some d \<Rightarrow>
             (case GetOrCreateCollection eng d (NameSpace opts) None (ef s) of
                (Inl err, d1) \<Rightarrow> (Inl (CouldntGetOrCreateCollection err), s\<lparr>db := Some d1\<rparr>)
              | (Inr c, d1) \<Rightarrow>
                 (case embedder s of
                    None \<Rightarrow> (Inl (Panic NilDereference), s\<lparr>db := Some d1\<rparr>)
                  | Some e \<Rightarrow>
                     (case EmbedDocuments e (map PageContent docs) of
                        Inl err \<Rightarrow> (Inl (CouldntEmbedDocuments err), s\<lparr>db := Some d1\<rparr>)
                      | Inr embeddings \<Rightarrow>
                         (case addLoop eng c embeddings uuids 0 docs [] d1 of
                            (r, d2) \<Rightarrow> (r, s\<lparr>db := Some d2\<rparr>)))))))"

subsection \<open>SimilaritySearch\<close>

text \<open>Lines 253 to 256: the unchecked type assertion panics on any other type.\<close>

definition filtersWhere :: "any \<Rightarrow> error + string gomap" where
  "filtersWhere filters =
     (case filters of
        AnyNil \<Rightarrow> Inr None
      | AnyMapStringString m \<Rightarrow> Inr m
      | _ \<Rightarrow> Inl (Panic TypeAssertionFailed))"

text \<open>Lines 275 to 281: the stored string map as a map of \<open>any\<close>.\<close>

fun anyValues :: "(string \<times> string) list \<Rightarrow> (string \<times> any) list \<Rightarrow> (string \<times> any) list" where
  "anyValues [] metadata = metadata"
| "anyValues ((k, v) # kvs) metadata = anyValues kvs (AList.update k (AnyString v) metadata)"

definition anyMetadata :: "string gomap \<Rightarrow> any gomap" where
  "anyMetadata m = (if go_len m > 0 then Some (anyValues (go_range m) []) else None)"

definition resultDocument :: "chromemgo_Result \<Rightarrow> Document" where
  "resultDocument doc =
     \<lparr>PageContent = ResContent doc, Metadata = anyMetadata (ResMetadata doc),
      Score = Similarity doc\<rparr>"

fun filterByThreshold :: "float32 \<Rightarrow> chromemgo_Result list \<Rightarrow> Document list \<Rightarrow> Document list" where
  "filterByThreshold t [] res = res"
| "filterByThreshold t (doc # docs) res =
     (if f32_ge (Similarity doc) t then filterByThreshold t docs (res @ [resultDocument doc])
      else filterByThreshold t docs res)"

definition SimilaritySearch :: "('db, 'c) engine \<Rightarrow> 'db Store \<Rightarrow> string \<Rightarrow> int \<Rightarrow>
    vectorstores_Option list \<Rightarrow> (error + Document list) \<times> 'db Store" where
  "SimilaritySearch eng s query numDocuments options =
     (let opts = getOptions (callDefaults s) options in
      case validateOptions opts of
        Some err \<Rightarrow> (Inl (InvalidOptions err), s)
      | None \<Rightarrow>
         (case filtersWhere (Filters opts) of
            Inl err \<Rightarrow> (Inl err, s)
          | Inr where' \<Rightarrow>
             (case db s of
                None \<Rightarrow> (Inl (Panic NilDereference), s)
              | Some d \<Rightarrow>
                 (case GetCollection eng d (NameSpace opts) (ef s) of
                    (None, d1) \<Rightarrow> (Inl NamespaceDoesntExist, s\<lparr>db := Some d1\<rparr>)
                  | (Some c, d1) \<Rightarrow>
                     (case Query eng c query numDocuments where' d1 of
                        (Inl err, d2) \<Rightarrow> (Inl (CouldntQueryCollection err), s\<lparr>db := Some d2\<rparr>)
                      | (Inr docs, d2) \<Rightarrow>
                          (Inr (filterByThreshold (ScoreThreshold opts) docs []),
                           s\<lparr>db := Some d2\<rparr>))))))"

subsection \<open>Observing the calls to the engine\<close>

text \<open>
  Which operations of the engine a call of the adapter invokes, and with which
  arguments, is read off a log: \<open>recording eng\<close> behaves as \<open>eng\<close> does and appends every
  call to the log it keeps beside the state of \<open>eng\<close>.
\<close>

datatype 'c call =
    CallGetOrCreateCollection string
  | CallGetCollection string
  | CallAddDocument 'c chromemgo_Document
  | CallQuery 'c string int "string gomap"

definition recording :: "('db, 'c) engine \<Rightarrow> ('db \<times> 'c call list, 'c) engine" where
  "recording eng =
     \<lparr>NewDB = (NewDB eng, []),
      NewPersistentDB = (\<lambda>path compress'.
         case NewPersistentDB eng path compress' of Inl err \<Rightarrow> Inl err | Inr d \<Rightarrow> Inr (d, [])),
      GetOrCreateCollection = (\<lambda>(d, calls) name metadata embed.
         case GetOrCreateCollection eng d name metadata embed of
           (r, d') \<Rightarrow> (r, (d', calls @ [CallGetOrCreateCollection name]))),
      GetCollection = (\<lambda>(d, calls) name embed.
         case GetCollection eng d name embed of
           (r, d') \<Rightarrow> (r, (d', calls @ [CallGetCollection name]))),
      AddDocument = (\<lambda>c doc (d, calls).
         case AddDocument eng c doc d of
           (r, d') \<Rightarrow> (r, (d', calls @ [CallAddDocument c doc]))),
      Query = (\<lambda>c query n where' (d, calls).
         case Query eng c query n where' d of
           (r, d') \<Rightarrow> (r, (d', calls @ [CallQuery c query n where'])))\<rparr>"

text \<open>The documents handed to \<open>AddDocument\<close>, in the order of the calls.\<close>

fun submitted :: "'c call list \<Rightarrow> chromemgo_Document list" where
  "submitted [] = []"
| "submitted (CallAddDocument c doc # cs) = doc # submitted cs"
| "submitted (_ # cs) = submitted cs"

subsection \<open>Vocabulary of the properties\<close>

fun isString :: "any \<Rightarrow> bool" where
  "isString (AnyString x) = True"
| "isString _ = False"

definition allStringValues :: "any gomap \<Rightarrow> bool" where
  "allStringValues m = list_all (\<lambda>(k, v). isString v) (go_range m)"

text \<open>
  What iteration \<open>i\<close> of the loop of \<open>AddDocuments\<close> hands to the engine for a document
  whose metadata converts, and the same for the documents from index \<open>i\<close> on.
\<close>

definition submission :: "float32 list list \<Rightarrow> (nat \<Rightarrow> string) \<Rightarrow> nat \<Rightarrow> Document \<Rightarrow> chromemgo_Document" where
  "submission embeddings uuids i doc =
     \<lparr>ID = uuids i,
      DocMetadata = (case stringMetadata (Metadata doc) of Inl err \<Rightarrow> None | Inr metadata \<Rightarrow> metadata),
      Embedding = embeddings ! i, Content = PageContent doc\<rparr>"

definition submissions :: "float32 list list \<Rightarrow> (nat \<Rightarrow> string) \<Rightarrow> nat \<Rightarrow> Document list \<Rightarrow> chromemgo_Document list" where
  "submissions embeddings uuids i docs =
     map (\<lambda>(j, doc). submission embeddings uuids j doc) (zip [i ..< i + length docs] docs)"

text \<open>
  The engine accepts the given documents one after the other, from the state \<open>d\<close> on:
  the calls of \<open>AddDocument\<close> of one run succeed.
\<close>

fun acceptsRun :: "('db, 'c) engine \<Rightarrow> 'c \<Rightarrow> chromemgo_Document list \<Rightarrow> 'db \<Rightarrow> bool" where
  "acceptsRun eng c [] d = True"
| "acceptsRun eng c (doc # docs) d =
     (case AddDocument eng c doc d of
        (None, d') \<Rightarrow> acceptsRun eng c docs d'
      | (Some err, d') \<Rightarrow> False)"

subsection \<open>A small engine for concrete runs\<close>

text \<open>
  An in-memory engine, an embedder and a UUID sequence on which the theorems below are
  instantiated: the database is the list of its collections, each with the documents
  added to it; a query returns every document of the collection, its similarity being
  the first component of its embedding.
\<close>

definition memEngine :: "((string \<times> chromemgo_Document list) list, string) engine" where
  "memEngine =
     \<lparr>NewDB = [],
      NewPersistentDB = (\<lambda>path compress'. Inr []),
      GetOrCreateCollection = (\<lambda>d name metadata embed.
         (Inr name, if map_of d name = None then d @ [(name, [])] else d)),
      GetCollection = (\<lambda>d name embed.
         (if map_of d name = None then None else Some name, d)),
      AddDocument = (\<lambda>c doc d.
         (None, map (\<lambda>(name, docs). if name = c then (name, docs @ [doc]) else (name, docs)) d)),
      Query = (\<lambda>c query n where' d.
         (Inr (map (\<lambda>doc. \<lparr>ResContent = Content doc, ResMetadata = DocMetadata doc,
                            Similarity = (case Embedding doc of [] \<Rightarrow> Fin 0 | x # xs \<Rightarrow> x)\<rparr>)
                 (case map_of d c of None \<Rightarrow> [] | Some docs \<Rightarrow> docs)), d))\<rparr>"

definition lengthEmbedder :: embeddings_Embedder where
  "lengthEmbedder =
     \<lparr>EmbedDocuments = (\<lambda>texts. Inr (map (\<lambda>t. [Fin (1 / of_nat (length t))]) texts)),
      EmbedQuery = (\<lambda>text. Inr [Fin 1])\<rparr>"

definition exampleUuids :: "nat \<Rightarrow> string" where
  "exampleUuids i = ''id'' @ replicate i (CHR ''x'')"

definition exampleStore :: "'db \<Rightarrow> 'db Store" where
  "exampleStore d =
     \<lparr>persistent = False, persistPath = defaultPersistPath, compress = defaultCompress,
      defaultCollectionName = ''langchaingo'', embedder = Some lengthEmbedder, db = Some d,
      ef = None\<rparr>"

definition tokyo :: Document where
  "tokyo = \<lparr>PageContent = ''Tokyo'', Metadata = Some [(''area'', AnyString ''622'')], Score = Fin 0\<rparr>"

definition rome :: Document where
  "rome = \<lparr>PageContent = ''Rome'', Metadata = None, Score = Fin 0\<rparr>"

definition paris :: Document where
  "paris = \<lparr>PageContent = ''Paris'', Metadata = Some [(''area'', AnyInt 105)], Score = Fin 0\<rparr>"

definition populated :: "(string \<times> chromemgo_Document list) list" where
  "populated =
     [(''langchaingo'',
       [\<lparr>ID = ''id'', DocMetadata = Some [(''area'', ''622'')], Embedding = [Fin (1 / 5)], Content = ''Tokyo''\<rparr>,
        \<lparr>ID = ''idx'', DocMetadata = None, Embedding = [Fin (3 / 4)], Content = ''Rome''\<rparr>])]"

text \<open>A UUID generator that returns the same string at every call.\<close>

definition repeatingUuids :: "nat \<Rightarrow> string" where
  "repeatingUuids i = ''same''"

subsection \<open>Properties\<close>

text \<open>The definitions that the concrete runs unfold.\<close>

lemmas example_defs =
  exampleStore_def callDefaults_def memEngine_def lengthEmbedder_def exampleUuids_def
  validateOptions_def f32_greater_def f32_ge_def
  allStringValues_def go_range_def go_len_def stringMetadata_def getOptions_def

subsection \<open>Options of a call\<close>

lemma getOptions_Nil: "getOptions defaults [] = defaults"
  by (simp add: getOptions_def)

lemma getOptions_snoc: "getOptions defaults (opts @ [opt]) = opt (getOptions defaults opts)"
  by (simp add: getOptions_def)

lemma getOptions_append:
  "getOptions defaults (xs @ ys) = getOptions (getOptions defaults xs) ys"
  by (simp add: getOptions_def)

lemma getOptions_keeps_NameSpace:
  "\<forall>opt\<in>set opts. \<forall>x. NameSpace (opt x) = NameSpace x \<Longrightarrow>
   NameSpace (getOptions defaults opts) = NameSpace defaults"
  by (induction opts arbitrary: defaults) (simp_all add: getOptions_def)

lemma validateOptions_Some_iff:
  "(validateOptions opts \<noteq> None) =
     (Deduplicater opts \<noteq> None \<or> Embedder opts \<noteq> None \<or> NameSpace opts = [] \<or>
      f32_less (ScoreThreshold opts) (Fin 0) \<or> f32_greater (ScoreThreshold opts) (Fin 1) \<or>
      (Filters opts \<noteq> AnyNil \<and> \<not> isMapStringString (Filters opts)))"
  by (simp add: validateOptions_def)

lemma AddDocuments_invalid:
  "validateOptions (getOptions (callDefaults s) options) = Some err \<Longrightarrow>
   AddDocuments eng s docs options uuids = (Inl (InvalidOptions err), s)"
  by (simp add: AddDocuments_def)

lemma SimilaritySearch_invalid:
  "validateOptions (getOptions (callDefaults s) options) = Some err \<Longrightarrow>
   SimilaritySearch eng s query n options = (Inl (InvalidOptions err), s)"
  by (simp add: SimilaritySearch_def)

text \<open>
  When a deduplication hook or an embedder override is set, the namespace is empty, the
  score threshold is below 0 or above 1, or the filter is present and not a
  string-to-string map, \<open>AddDocuments\<close> and \<open>SimilaritySearch\<close> return the validation
  error and the store, with the database in it, is the one they were given, whatever the
  engine and the embedder are.
\<close>

lemma invalid_options_rejected_first:
  assumes "opts = getOptions (callDefaults s) options"
    and "Deduplicater opts \<noteq> None \<or> Embedder opts \<noteq> None \<or> NameSpace opts = [] \<or>
      f32_less (ScoreThreshold opts) (Fin 0) \<or> f32_greater (ScoreThreshold opts) (Fin 1) \<or>
      (Filters opts \<noteq> AnyNil \<and> \<not> isMapStringString (Filters opts))"
  shows "\<exists>err. AddDocuments eng s docs options uuids = (Inl (InvalidOptions err), s) \<and>
               SimilaritySearch eng s query n options = (Inl (InvalidOptions err), s)"
proof -
  from assms have "validateOptions (getOptions (callDefaults s) options) \<noteq> None"
    by (simp only: validateOptions_Some_iff)
  then obtain err where "validateOptions (getOptions (callDefaults s) options) = Some err"
    by blast
  then show ?thesis
    by (blast intro: AddDocuments_invalid SimilaritySearch_invalid)
qed

lemma valid_filtersWhere:
  "validateOptions opts = None \<Longrightarrow> \<exists>w. filtersWhere (Filters opts) = Inr w"
  by (cases "Filters opts") (auto simp: validateOptions_def filtersWhere_def split: if_splits)

text \<open>
  Claim C10. Once \<open>validateOptions\<close> has accepted the options, the type assertion of the
  filter to a string-to-string map cannot fail, and so no call of \<open>SimilaritySearch\<close>
  ends in the panic of that assertion.
\<close>

theorem C10_filter_assertion_cannot_fail:
  "(validateOptions opts = None \<longrightarrow> filtersWhere (Filters opts) \<noteq> Inl (Panic TypeAssertionFailed)) \<and>
   fst (SimilaritySearch eng s query n options) \<noteq> Inl (Panic TypeAssertionFailed)"
proof
  show "validateOptions opts = None \<longrightarrow> filtersWhere (Filters opts) \<noteq> Inl (Panic TypeAssertionFailed)"
    using valid_filtersWhere [of opts] by auto
next
  let ?o = "getOptions (callDefaults s) options"
  show "fst (SimilaritySearch eng s query n options) \<noteq> Inl (Panic TypeAssertionFailed)"
  proof (cases "validateOptions ?o")
    case (Some err)
    then show ?thesis by (simp add: SimilaritySearch_invalid)
  next
    case None
    then obtain w where "filtersWhere (Filters ?o) = Inr w"
      using valid_filtersWhere by blast
    with None show ?thesis
      by (simp add: SimilaritySearch_def Let_def split: option.split prod.split sum.split)
  qed
qed

theorem C10_witness:
  "validateOptions (getOptions (callDefaults (exampleStore [] :: (string \<times> chromemgo_Document list) list Store))
      [WithFilters (AnyMapStringString (Some [(''area'', ''1523'')]))]) = None \<and>
   filtersWhere (AnyMapStringString (Some [(''area'', ''1523'')])) \<noteq> Inl (Panic TypeAssertionFailed) \<and>
   fst (SimilaritySearch memEngine (exampleStore []) ''city'' 3
      [WithFilters (AnyMapStringString (Some [(''area'', ''1523'')]))]) \<noteq> Inl (Panic TypeAssertionFailed)"
proof -
  let ?s = "exampleStore [] :: (string \<times> chromemgo_Document list) list Store"
  let ?options = "[WithFilters (AnyMapStringString (Some [(''area'', ''1523'')]))]"
  let ?opts = "getOptions (callDefaults ?s) ?options"
  have v: "validateOptions ?opts = None"
    by (simp add: example_defs WithFilters_def)
  have f: "Filters ?opts = AnyMapStringString (Some [(''area'', ''1523'')])"
    by (simp add: example_defs WithFilters_def)
  show ?thesis
    using C10_filter_assertion_cannot_fail [of ?opts memEngine ?s "''city''" 3 ?options] v f by simp
qed

subsection \<open>Construction\<close>

lemma applyOptions_append: "applyOptions (xs @ ys) s = applyOptions ys (applyOptions xs s)"
  by (simp add: applyOptions_def)








text \<open>
  Claim C9. \<open>WithPersistence\<close> with the empty path overwrites the default path that
  \<open>applyClientOptions\<close> has set: the store keeps the empty path, not \<open>./langchaingo\<close>,
  and the engine is opened with it.
\<close>

theorem C9_empty_path_is_kept:
  "persistPath (applyOptions [WithEmbedder (Some e), WithPersistence [] c] initialStore) = [] \<and>
   map_sum id persistPath (New eng [WithEmbedder (Some e), WithPersistence [] c]) =
     map_sum CouldntCreatePersistentDB (\<lambda>d. []) (NewPersistentDB eng [] c) \<and>
   map_sum id persistPath (New memEngine [WithEmbedder (Some lengthEmbedder), WithPersistence [] False]) = Inr [] \<and>
   defaultPersistPath = ''./langchaingo''"
proof (intro conjI)
  show "persistPath (applyOptions [WithEmbedder (Some e), WithPersistence [] c] initialStore) = []"
    by (simp add: applyOptions_def WithEmbedder_def WithPersistence_def)
  show "map_sum id persistPath (New eng [WithEmbedder (Some e), WithPersistence [] c]) =
     map_sum CouldntCreatePersistentDB (\<lambda>d. []) (NewPersistentDB eng [] c)"
    by (cases "NewPersistentDB eng [] c")
       (simp_all add: New_def applyClientOptions_def applyOptions_def WithEmbedder_def WithPersistence_def)
  show "map_sum id persistPath (New memEngine [WithEmbedder (Some lengthEmbedder), WithPersistence [] False]) = Inr []"
    by (simp add: New_def applyClientOptions_def applyOptions_def WithEmbedder_def WithPersistence_def
        memEngine_def)
  show "defaultPersistPath = ''./langchaingo''"
    by (simp add: defaultPersistPath_def)
qed

text \<open>The defaults themselves are as documented: no persistence, no compression.\<close>

lemma construction_defaults:
  "persistent initialStore = False \<and> compress initialStore = False \<and>
   persistPath initialStore = ''./langchaingo'' \<and>
   map_sum id (\<lambda>s. (persistent s, persistPath s, compress s)) (New eng [WithEmbedder (Some e)]) =
     Inr (False, ''./langchaingo'', False)"
  by (simp add: initialStore_def defaultPersistPath_def defaultCompress_def New_def
      applyClientOptions_def applyOptions_def WithEmbedder_def)

subsection \<open>What AddDocuments hands to the engine\<close>

lemma recording_GetOrCreateCollection:
  "GetOrCreateCollection (recording eng) (d, calls) name metadata emb =
     (fst (GetOrCreateCollection eng d name metadata emb),
      (snd (GetOrCreateCollection eng d name metadata emb), calls @ [CallGetOrCreateCollection name]))"
  by (simp add: recording_def split: prod.split)

lemma recording_GetCollection:
  "GetCollection (recording eng) (d, calls) name emb =
     (fst (GetCollection eng d name emb),
      (snd (GetCollection eng d name emb), calls @ [CallGetCollection name]))"
  by (simp add: recording_def split: prod.split)

lemma recording_AddDocument:
  "AddDocument (recording eng) c doc (d, calls) =
     (fst (AddDocument eng c doc d), (snd (AddDocument eng c doc d), calls @ [CallAddDocument c doc]))"
  by (simp add: recording_def split: prod.split)

lemma recording_Query:
  "Query (recording eng) c query n w (d, calls) =
     (fst (Query eng c query n w d), (snd (Query eng c query n w d), calls @ [CallQuery c query n w]))"
  by (simp add: recording_def split: prod.split)

lemma addLoop_log_extends:
  "\<exists>d' new. snd (addLoop (recording eng) c embeddings uuids i docs ids (d, calls)) = (d', calls @ new)"
proof (induction docs arbitrary: i ids d calls)
  case Nil
  then show ?case by simp
next
  case (Cons doc docs)
  show ?case
  proof (cases "stringMetadata (Metadata doc)")
    case (Inl err)
    then show ?thesis by simp
  next
    case (Inr metadata)
    let ?cd = "\<lparr>ID = uuids i, DocMetadata = metadata, Embedding = embeddings ! i, Content = PageContent doc\<rparr>"
    show ?thesis
    proof (cases "length embeddings \<le> i")
      case True
      with Inr show ?thesis by simp
    next
      case False
      show ?thesis
      proof (cases "fst (AddDocument eng c ?cd d)")
        case (Some err)
        with Inr False show ?thesis by (simp add: recording_AddDocument Let_def)
      next
        case None
        from Cons.IH [of "Suc i" "ids @ [uuids i]" "snd (AddDocument eng c ?cd d)" "calls @ [CallAddDocument c ?cd]"]
        obtain d' new where
          "snd (addLoop (recording eng) c embeddings uuids (Suc i) docs (ids @ [uuids i])
                 (snd (AddDocument eng c ?cd d), calls @ [CallAddDocument c ?cd])) =
           (d', calls @ [CallAddDocument c ?cd] @ new)"
          by auto
        with Inr False None show ?thesis by (simp add: recording_AddDocument Let_def)
      qed
    qed
  qed
qed

lemma stringValues_ok:
  "list_all (\<lambda>(k, v). isString v) kvs \<Longrightarrow> \<exists>r. stringValues kvs acc = Inr r"
proof (induction kvs arbitrary: acc)
  case Nil
  then show ?case by simp
next
  case (Cons kv kvs)
  obtain k v where kv: "kv = (k, v)" by (cases kv)
  with Cons.prems obtain x where "v = AnyString x" by (cases v) auto
  with kv Cons show ?case by simp
qed

lemma stringMetadata_ok:
  "allStringValues m \<Longrightarrow> \<exists>metadata. stringMetadata m = Inr metadata"
  using stringValues_ok [of "go_range m" "[]"]
  by (auto simp: stringMetadata_def allStringValues_def)

lemma stringValues_bad:
  "\<not> list_all (\<lambda>(k, v). isString v) kvs \<Longrightarrow> stringValues kvs acc = Inl OnlyStringValuesSupported"
proof (induction kvs arbitrary: acc)
  case Nil
  then show ?case by simp
next
  case (Cons kv kvs)
  obtain k v where kv: "kv = (k, v)" by (cases kv)
  show ?case
  proof (cases "isString v")
    case True
    then obtain x where "v = AnyString x" by (cases v) auto
    with kv Cons show ?thesis by simp
  next
    case False
    with kv show ?thesis by (cases v) auto
  qed
qed

lemma stringMetadata_bad:
  assumes "\<not> allStringValues m"
  shows "stringMetadata m = Inl OnlyStringValuesSupported"
proof -
  from assms have "go_range m \<noteq> []"
    by (auto simp: allStringValues_def)
  then have "go_len m > 0"
    by (cases m) (auto simp: go_range_def go_len_def)
  with assms show ?thesis
    by (simp add: stringMetadata_def allStringValues_def stringValues_bad)
qed

lemma submissions_Nil: "submissions embeddings uuids i [] = []"
  by (simp add: submissions_def)

lemma submissions_Cons:
  "submissions embeddings uuids i (doc # docs) =
     submission embeddings uuids i doc # submissions embeddings uuids (Suc i) docs"
  by (simp add: submissions_def upt_conv_Cons del: upt_Suc)

lemma submissions_ID: "map ID (submissions embeddings uuids i docs) = map uuids [i ..< i + length docs]"
  by (induction docs arbitrary: i)
     (simp_all add: submissions_Nil submissions_Cons submission_def upt_conv_Cons del: upt_Suc)

lemma submissions_Content: "map Content (submissions embeddings uuids i docs) = map PageContent docs"
  by (induction docs arbitrary: i) (simp_all add: submissions_Nil submissions_Cons submission_def)

lemma addLoop_accepted_prefix:
  assumes "list_all (\<lambda>doc. allStringValues (Metadata doc)) pre"
    and "i + length pre \<le> length embeddings"
    and "acceptsRun eng c (submissions embeddings uuids i pre) d"
  shows "\<exists>d'. addLoop (recording eng) c embeddings uuids i (pre @ rest) ids (d, calls) =
     addLoop (recording eng) c embeddings uuids (i + length pre) rest
       (ids @ map uuids [i ..< i + length pre])
       (d', calls @ map (CallAddDocument c) (submissions embeddings uuids i pre))"
  using assms
proof (induction pre arbitrary: i ids d calls)
  case Nil
  then show ?case by (auto simp: submissions_Nil intro: exI [of _ d])
next
  case (Cons doc pre)
  from Cons.prems obtain metadata where md: "stringMetadata (Metadata doc) = Inr metadata"
    using stringMetadata_ok by auto
  let ?cd = "submission embeddings uuids i doc"
  have cd: "?cd = \<lparr>ID = uuids i, DocMetadata = metadata, Embedding = embeddings ! i, Content = PageContent doc\<rparr>"
    by (simp add: submission_def md)
  from Cons.prems(3) have ok: "fst (AddDocument eng c ?cd d) = None"
    and run: "acceptsRun eng c (submissions embeddings uuids (Suc i) pre) (snd (AddDocument eng c ?cd d))"
    by (auto simp: submissions_Cons split: prod.splits option.splits)
  from Cons.prems have rest: "list_all (\<lambda>doc. allStringValues (Metadata doc)) pre"
    "Suc i + length pre \<le> length embeddings" and i: "\<not> length embeddings \<le> i"
    by simp_all
  from Cons.IH [OF rest run, of "ids @ [uuids i]" "calls @ [CallAddDocument c ?cd]"]
  obtain d' where d': "addLoop (recording eng) c embeddings uuids (Suc i) (pre @ rest) (ids @ [uuids i])
        (snd (AddDocument eng c ?cd d), calls @ [CallAddDocument c ?cd]) =
      addLoop (recording eng) c embeddings uuids (Suc i + length pre) rest
        ((ids @ [uuids i]) @ map uuids [Suc i ..< Suc i + length pre])
        (d', (calls @ [CallAddDocument c ?cd]) @ map (CallAddDocument c) (submissions embeddings uuids (Suc i) pre))"
    by blast
  have step: "addLoop (recording eng) c embeddings uuids i ((doc # pre) @ rest) ids (d, calls) =
      addLoop (recording eng) c embeddings uuids (Suc i) (pre @ rest) (ids @ [uuids i])
        (snd (AddDocument eng c ?cd d), calls @ [CallAddDocument c ?cd])"
    using md i ok by (simp add: recording_AddDocument Let_def cd [symmetric])
  have "[i ..< i + length (doc # pre)] = i # [Suc i ..< Suc i + length pre]"
    by (simp add: upt_conv_Cons del: upt_Suc)
  then show ?case
    using step d' by (auto simp: submissions_Cons simp del: upt_Suc)
qed

lemma AddDocuments_recording_unfold:
  assumes "validateOptions (getOptions (callDefaults s) options) = None"
    and "db s = Some (d, calls)"
    and "GetOrCreateCollection eng d (NameSpace (getOptions (callDefaults s) options)) None (ef s) = (Inr c, d1)"
    and "embedder s = Some e"
    and "EmbedDocuments e (map PageContent docs) = Inr embeddings"
  shows "AddDocuments (recording eng) s docs options uuids =
     (case addLoop (recording eng) c embeddings uuids 0 docs []
             (d1, calls @ [CallGetOrCreateCollection (NameSpace (getOptions (callDefaults s) options))]) of
        (r, d2) \<Rightarrow> (r, s\<lparr>db := Some d2\<rparr>))"
  using assms by (simp add: AddDocuments_def Let_def recording_GetOrCreateCollection)


text \<open>
  Claim C1, as amended. For a batch whose options validate and whose metadata values are
  all strings, when the collection is resolved, the embedder returns a vector for each
  document and the engine accepts the documents of the run, \<open>AddDocuments\<close> returns one
  identifier per document: the engine receives the documents in the order of the input,
  document \<open>i\<close> under identifier \<open>i\<close> of the result, which is the string the UUID
  generator returned in iteration \<open>i\<close>. The adapter compares no identifiers: they are
  distinct exactly when the strings generated during the call are.
\<close>

theorem C1_one_id_per_document:
  assumes "getOptions (callDefaults s) options = opts"
    and "validateOptions opts = None"
    and "list_all (\<lambda>doc. allStringValues (Metadata doc)) docs"
    and "db s = Some (d, calls)"
    and "GetOrCreateCollection eng d (NameSpace opts) None (ef s) = (Inr c, d1)"
    and "embedder s = Some e"
    and "EmbedDocuments e (map PageContent docs) = Inr embeddings"
    and "length docs \<le> length embeddings"
    and "acceptsRun eng c (submissions embeddings uuids 0 docs) d1"
    and "ids = map uuids [0 ..< length docs]"
  shows "(\<exists>d2. AddDocuments (recording eng) s docs options uuids =
            (Inr ids, s\<lparr>db := Some (d2, calls @ CallGetOrCreateCollection (NameSpace opts) #
                 map (CallAddDocument c) (submissions embeddings uuids 0 docs))\<rparr>)) \<and>
         length ids = length docs \<and>
         map ID (submissions embeddings uuids 0 docs) = ids \<and>
         map Content (submissions embeddings uuids 0 docs) = map PageContent docs \<and>
         distinct ids = inj_on uuids {0 ..< length docs}"
proof (intro conjI)
  from addLoop_accepted_prefix [OF assms(3) _ assms(9), of "[]" "[]"
      "calls @ [CallGetOrCreateCollection (NameSpace opts)]"] assms(8)
  obtain d2 where "addLoop (recording eng) c embeddings uuids 0 docs []
        (d1, calls @ [CallGetOrCreateCollection (NameSpace opts)]) =
      (Inr ids, (d2, (calls @ [CallGetOrCreateCollection (NameSpace opts)]) @
         map (CallAddDocument c) (submissions embeddings uuids 0 docs)))"
    using assms(10) by auto
  then show "\<exists>d2. AddDocuments (recording eng) s docs options uuids =
            (Inr ids, s\<lparr>db := Some (d2, calls @ CallGetOrCreateCollection (NameSpace opts) #
                 map (CallAddDocument c) (submissions embeddings uuids 0 docs))\<rparr>)"
    using AddDocuments_recording_unfold [of s options d calls eng c d1 e docs embeddings uuids] assms(1-7)
    by auto
next
  show "length ids = length docs" using assms(10) by simp
next
  show "map ID (submissions embeddings uuids 0 docs) = ids"
    using assms(10) by (simp add: submissions_ID)
next
  show "map Content (submissions embeddings uuids 0 docs) = map PageContent docs"
    by (rule submissions_Content)
next
  show "distinct ids = inj_on uuids {0 ..< length docs}"
    using assms(10) by (simp add: distinct_map)
qed

theorem C1_witness:
  "fst (AddDocuments (recording memEngine) (exampleStore ([], [])) [tokyo, rome] [] exampleUuids) =
     Inr [''id'', ''idx''] \<and>
   length [''id'', ''idx''] = length [tokyo, rome] \<and> distinct [''id'', ''idx'']"
proof -
  let ?s = "exampleStore ([], []) :: ((string \<times> chromemgo_Document list) list \<times> string call list) Store"
  have h1: "getOptions (callDefaults ?s) [] = callDefaults ?s"
    by (simp add: getOptions_def)
  have h2: "validateOptions (callDefaults ?s) = None"
    by (simp add: example_defs)
  have h3: "list_all (\<lambda>doc. allStringValues (Metadata doc)) [tokyo, rome]"
    by (simp add: example_defs tokyo_def rome_def)
  have h4: "db ?s = Some ([], [])"
    by (simp add: example_defs)
  have h5: "GetOrCreateCollection memEngine [] (NameSpace (callDefaults ?s)) None (ef ?s) =
      (Inr ''langchaingo'', [(''langchaingo'', [])])"
    by (simp add: example_defs)
  have h6: "embedder ?s = Some lengthEmbedder"
    by (simp add: example_defs)
  have h7: "EmbedDocuments lengthEmbedder (map PageContent [tokyo, rome]) = Inr [[Fin (1 / 5)], [Fin (1 / 4)]]"
    by (simp add: example_defs tokyo_def rome_def)
  have h8: "length [tokyo, rome] \<le> length [[Fin (1 / 5)], [Fin (1 / 4)]]"
    by simp
  have h9: "acceptsRun memEngine ''langchaingo''
      (submissions [[Fin (1 / 5)], [Fin (1 / 4)]] exampleUuids 0 [tokyo, rome]) [(''langchaingo'', [])]"
    by (simp add: submissions_Cons submissions_Nil memEngine_def)
  have h10: "[''id'', ''idx''] = map exampleUuids [0 ..< length [tokyo, rome]]"
    by (simp add: example_defs)
  show ?thesis
    using C1_one_id_per_document [OF h1 h2 h3 h4 h5 h6 h7 h8 h9 h10] by auto
qed

text \<open>
  Claim C1 as stated promises distinct identifiers. With a generator that repeats itself
  the call succeeds and returns the same identifier twice.
\<close>

theorem C1_counterexample:
  "validateOptions (getOptions (callDefaults (exampleStore ([], []) ::
       ((string \<times> chromemgo_Document list) list \<times> string call list) Store)) []) = None \<and>
   allStringValues (Metadata tokyo) \<and> allStringValues (Metadata rome) \<and>
   fst (AddDocuments (recording memEngine) (exampleStore ([], [])) [tokyo, rome] [] repeatingUuids) =
     Inr [''same'', ''same''] \<and>
   \<not> distinct [''same'', ''same'']"
  by (simp add: AddDocuments_def recording_GetOrCreateCollection recording_AddDocument
      example_defs tokyo_def rome_def repeatingUuids_def Let_def)

text \<open>
  Claim C4, as amended. For a batch whose options validate, whose collection is obtained,
  whose embedding succeeds with a vector for each document before the first one with a
  non-string metadata value, and whose documents before that one are accepted by the
  engine, \<open>AddDocuments\<close> returns the metadata-type error and no identifiers; the engine
  has received the documents before that one, in order, and neither that document nor a
  later one. Nothing is taken back.
\<close>

theorem C4_metadata_error_stops_batch:
  assumes "getOptions (callDefaults s) options = opts"
    and "validateOptions opts = None"
    and "list_all (\<lambda>doc. allStringValues (Metadata doc)) pre"
    and "\<not> allStringValues (Metadata bad)"
    and "db s = Some (d, calls)"
    and "GetOrCreateCollection eng d (NameSpace opts) None (ef s) = (Inr c, d1)"
    and "embedder s = Some e"
    and "EmbedDocuments e (map PageContent (pre @ bad # post)) = Inr embeddings"
    and "length pre \<le> length embeddings"
    and "acceptsRun eng c (submissions embeddings uuids 0 pre) d1"
  shows "(\<exists>d2. AddDocuments (recording eng) s (pre @ bad # post) options uuids =
            (Inl OnlyStringValuesSupported,
             s\<lparr>db := Some (d2, calls @ CallGetOrCreateCollection (NameSpace opts) #
                 map (CallAddDocument c) (submissions embeddings uuids 0 pre))\<rparr>)) \<and>
         map Content (submissions embeddings uuids 0 pre) = map PageContent pre"
proof
  from addLoop_accepted_prefix [OF assms(3) _ assms(10), of "bad # post" "[]"
      "calls @ [CallGetOrCreateCollection (NameSpace opts)]"] assms(9)
  obtain d2 where "addLoop (recording eng) c embeddings uuids 0 (pre @ bad # post) []
        (d1, calls @ [CallGetOrCreateCollection (NameSpace opts)]) =
      addLoop (recording eng) c embeddings uuids (length pre) (bad # post)
        (map uuids [0 ..< length pre])
        (d2, (calls @ [CallGetOrCreateCollection (NameSpace opts)]) @
         map (CallAddDocument c) (submissions embeddings uuids 0 pre))"
    by auto
  then have "addLoop (recording eng) c embeddings uuids 0 (pre @ bad # post) []
        (d1, calls @ [CallGetOrCreateCollection (NameSpace opts)]) =
      (Inl OnlyStringValuesSupported, (d2, (calls @ [CallGetOrCreateCollection (NameSpace opts)]) @
         map (CallAddDocument c) (submissions embeddings uuids 0 pre)))"
    using stringMetadata_bad [OF assms(4)] by simp
  then show "\<exists>d2. AddDocuments (recording eng) s (pre @ bad # post) options uuids =
            (Inl OnlyStringValuesSupported,
             s\<lparr>db := Some (d2, calls @ CallGetOrCreateCollection (NameSpace opts) #
                 map (CallAddDocument c) (submissions embeddings uuids 0 pre))\<rparr>)"
    using AddDocuments_recording_unfold [of s options d calls eng c d1 e "pre @ bad # post" embeddings uuids] assms(1,2,5-8)
    by auto
next
  show "map Content (submissions embeddings uuids 0 pre) = map PageContent pre"
    by (rule submissions_Content)
qed

theorem C4_witness:
  "fst (AddDocuments (recording memEngine) (exampleStore ([], [])) ([tokyo] @ paris # [rome]) [] exampleUuids) =
     Inl OnlyStringValuesSupported \<and>
   map Content (submissions [[Fin (1 / 5)], [Fin (1 / 5)], [Fin (1 / 4)]] exampleUuids 0 [tokyo]) = [''Tokyo'']"
proof -
  let ?s = "exampleStore ([], []) :: ((string \<times> chromemgo_Document list) list \<times> string call list) Store"
  have h1: "getOptions (callDefaults ?s) [] = callDefaults ?s"
    by (simp add: getOptions_def)
  have h2: "validateOptions (callDefaults ?s) = None"
    by (simp add: example_defs)
  have h3: "list_all (\<lambda>doc. allStringValues (Metadata doc)) [tokyo]"
    by (simp add: example_defs tokyo_def)
  have h4: "\<not> allStringValues (Metadata paris)"
    by (simp add: example_defs paris_def)
  have h5: "db ?s = Some ([], [])"
    by (simp add: example_defs)
  have h6: "GetOrCreateCollection memEngine [] (NameSpace (callDefaults ?s)) None (ef ?s) =
      (Inr ''langchaingo'', [(''langchaingo'', [])])"
    by (simp add: example_defs)
  have h7: "embedder ?s = Some lengthEmbedder"
    by (simp add: example_defs)
  have h8: "EmbedDocuments lengthEmbedder (map PageContent ([tokyo] @ paris # [rome])) =
      Inr [[Fin (1 / 5)], [Fin (1 / 5)], [Fin (1 / 4)]]"
    by (simp add: example_defs tokyo_def rome_def paris_def)
  have h9: "length [tokyo] \<le> length [[Fin (1 / 5)], [Fin (1 / 5)], [Fin (1 / 4)]]"
    by simp
  have h10: "acceptsRun memEngine ''langchaingo''
      (submissions [[Fin (1 / 5)], [Fin (1 / 5)], [Fin (1 / 4)]] exampleUuids 0 [tokyo]) [(''langchaingo'', [])]"
    by (simp add: submissions_Cons submissions_Nil memEngine_def)
  show ?thesis
    using C4_metadata_error_stops_batch [OF h1 h2 h3 h4 h5 h6 h7 h8 h9 h10]
    by (auto simp: tokyo_def)
qed

text \<open>
  Claim C4 as stated says that the document with the non-string value is submitted. A
  batch of that single document leaves the collection empty: the engine is asked for
  the collection and receives no document.
\<close>

theorem C4_counterexample:
  "AddDocuments (recording memEngine) (exampleStore ([], [])) [paris] [] exampleUuids =
     (Inl OnlyStringValuesSupported,
      exampleStore ([(''langchaingo'', [])], [CallGetOrCreateCollection ''langchaingo''])) \<and>
   submitted [CallGetOrCreateCollection ''langchaingo'' :: string call] = []"
  by (simp add: AddDocuments_def recording_GetOrCreateCollection example_defs paris_def)

text \<open>
  Claim C5. A NaN threshold lies outside [0,1], but it is neither below 0 nor above 1 in
  the comparisons of \<open>validateOptions\<close>, which accepts it: \<open>AddDocuments\<close> goes on to
  \<open>GetOrCreateCollection\<close> and \<open>SimilaritySearch\<close> to \<open>GetCollection\<close>.
\<close>

theorem C5_nan_threshold_passes_validation:
  "AddDocuments (recording memEngine) (exampleStore ([], [])) [] [WithScoreThreshold NaN] exampleUuids =
     (Inr [], exampleStore ([(''langchaingo'', [])], [CallGetOrCreateCollection ''langchaingo''])) \<and>
   SimilaritySearch (recording memEngine) (exampleStore ([], [])) ''city'' 3 [WithScoreThreshold NaN] =
     (Inl NamespaceDoesntExist, exampleStore ([], [CallGetCollection ''langchaingo'']))"
  by (simp add: AddDocuments_def SimilaritySearch_def recording_GetOrCreateCollection
      recording_GetCollection filtersWhere_def example_defs WithScoreThreshold_def Let_def)

lemma nan_threshold_is_accepted:
  "validateOptions (getOptions (callDefaults s) [WithScoreThreshold NaN]) =
     (if defaultCollectionName s = [] then Some NamespaceIsEmpty else None)"
  by (simp add: validateOptions_def getOptions_def callDefaults_def WithScoreThreshold_def
      f32_greater_def)

subsection \<open>Namespaces\<close>

lemma SimilaritySearch_missing_namespace:
  assumes "validateOptions (getOptions (callDefaults s) options) = None"
    and "db s = Some d"
    and "GetCollection eng d (NameSpace (getOptions (callDefaults s) options)) (ef s) = (None, d1)"
  shows "SimilaritySearch eng s query n options = (Inl NamespaceDoesntExist, s\<lparr>db := Some d1\<rparr>)"
proof -
  from assms(1) obtain w where "filtersWhere (Filters (getOptions (callDefaults s) options)) = Inr w"
    using valid_filtersWhere by blast
  with assms show ?thesis
    by (simp add: SimilaritySearch_def Let_def)
qed

lemma AddDocuments_first_call:
  assumes "validateOptions (getOptions (callDefaults s) options) = None"
    and "db s = Some (d, calls)"
  shows "\<exists>r d2 rest. AddDocuments (recording eng) s docs options uuids =
     (r, s\<lparr>db := Some (d2, calls @
        CallGetOrCreateCollection (NameSpace (getOptions (callDefaults s) options)) # rest)\<rparr>)"
proof -
  let ?ns = "NameSpace (getOptions (callDefaults s) options)"
  let ?calls = "calls @ [CallGetOrCreateCollection ?ns]"
  obtain rc d1 where g: "GetOrCreateCollection eng d ?ns None (ef s) = (rc, d1)"
    by (cases "GetOrCreateCollection eng d ?ns None (ef s)")
  show ?thesis
  proof (cases rc)
    case (Inl err)
    with assms g have "AddDocuments (recording eng) s docs options uuids =
        (Inl (CouldntGetOrCreateCollection err), s\<lparr>db := Some (d1, calls @ CallGetOrCreateCollection ?ns # [])\<rparr>)"
      by (simp add: AddDocuments_def Let_def recording_GetOrCreateCollection)
    then show ?thesis by blast
  next
    case c: (Inr c)
    show ?thesis
    proof (cases "embedder s")
      case None
      with assms g c have "AddDocuments (recording eng) s docs options uuids =
          (Inl (Panic NilDereference), s\<lparr>db := Some (d1, calls @ CallGetOrCreateCollection ?ns # [])\<rparr>)"
        by (simp add: AddDocuments_def Let_def recording_GetOrCreateCollection)
      then show ?thesis by blast
    next
      case (Some e)
      show ?thesis
      proof (cases "EmbedDocuments e (map PageContent docs)")
        case (Inl err)
        with assms g c Some have "AddDocuments (recording eng) s docs options uuids =
            (Inl (CouldntEmbedDocuments err), s\<lparr>db := Some (d1, calls @ CallGetOrCreateCollection ?ns # [])\<rparr>)"
          by (simp add: AddDocuments_def Let_def recording_GetOrCreateCollection)
        then show ?thesis by blast
      next
        case (Inr embeddings)
        obtain r st where l: "addLoop (recording eng) c embeddings uuids 0 docs [] (d1, ?calls) = (r, st)"
          by (cases "addLoop (recording eng) c embeddings uuids 0 docs [] (d1, ?calls)")
        from addLoop_log_extends [of eng c embeddings uuids 0 docs "[]" d1 ?calls] l
        obtain d2 new where "st = (d2, ?calls @ new)"
          by auto
        with l assms g c Some Inr have "AddDocuments (recording eng) s docs options uuids =
            (r, s\<lparr>db := Some (d2, calls @ CallGetOrCreateCollection ?ns # new)\<rparr>)"
          using AddDocuments_recording_unfold [of s options d calls eng c d1 e docs embeddings uuids]
          by simp
        then show ?thesis by blast
      qed
    qed
  qed
qed

lemma SimilaritySearch_first_call:
  assumes "validateOptions (getOptions (callDefaults s) options) = None"
    and "db s = Some (d, calls)"
  shows "\<exists>r d2 rest. SimilaritySearch (recording eng) s query n options =
     (r, s\<lparr>db := Some (d2, calls @
        CallGetCollection (NameSpace (getOptions (callDefaults s) options)) # rest)\<rparr>) \<and>
     (\<forall>name. CallGetOrCreateCollection name \<notin> set rest)"
proof -
  let ?opts = "getOptions (callDefaults s) options"
  from assms(1) obtain w where w: "filtersWhere (Filters ?opts) = Inr w"
    using valid_filtersWhere by blast
  obtain rc d1 where g: "GetCollection eng d (NameSpace ?opts) (ef s) = (rc, d1)"
    by (cases "GetCollection eng d (NameSpace ?opts) (ef s)")
  show ?thesis
  proof (cases rc)
    case None
    with assms w g have "SimilaritySearch (recording eng) s query n options =
        (Inl NamespaceDoesntExist, s\<lparr>db := Some (d1, calls @ CallGetCollection (NameSpace ?opts) # [])\<rparr>)"
      by (simp add: SimilaritySearch_def Let_def recording_GetCollection)
    moreover have "\<forall>name. CallGetOrCreateCollection name \<notin> set ([] :: 'b call list)"
      by simp
    ultimately show ?thesis by blast
  next
    case (Some c)
    obtain rq d2 where q: "Query eng c query n w d1 = (rq, d2)"
      by (cases "Query eng c query n w d1")
    with assms w g Some have "\<exists>r. SimilaritySearch (recording eng) s query n options =
        (r, s\<lparr>db := Some (d2, calls @ CallGetCollection (NameSpace ?opts) # [CallQuery c query n w])\<rparr>)"
      by (cases rq) (simp_all add: SimilaritySearch_def Let_def recording_GetCollection recording_Query)
    moreover have "\<forall>name. CallGetOrCreateCollection name \<notin> set [CallQuery c query n w]"
      by simp
    ultimately show ?thesis by blast
  qed
qed

text \<open>
  Claim C6. When the resolved namespace has no collection, \<open>SimilaritySearch\<close> returns
  the namespace-not-found error, not an empty list, and the only operation of the engine
  it has invoked is the lookup \<open>GetCollection\<close>: nothing is created. \<open>AddDocuments\<close>, with
  the same options, begins with \<open>GetOrCreateCollection\<close> for that namespace.
\<close>

theorem C6_search_never_creates:
  assumes "getOptions (callDefaults s) options = opts"
    and "validateOptions opts = None"
    and "db s = Some (d, calls)"
    and "GetCollection eng d (NameSpace opts) (ef s) = (None, d1)"
  shows "SimilaritySearch (recording eng) s query n options =
           (Inl NamespaceDoesntExist, s\<lparr>db := Some (d1, calls @ [CallGetCollection (NameSpace opts)])\<rparr>) \<and>
         fst (SimilaritySearch (recording eng) s query n options) \<noteq> Inr [] \<and>
         (\<exists>r d2 rest. AddDocuments (recording eng) s docs options uuids =
           (r, s\<lparr>db := Some (d2, calls @ CallGetOrCreateCollection (NameSpace opts) # rest)\<rparr>))"
proof -
  have "GetCollection (recording eng) (d, calls) (NameSpace opts) (ef s) =
      (None, (d1, calls @ [CallGetCollection (NameSpace opts)]))"
    using assms(4) by (simp add: recording_GetCollection)
  then have "SimilaritySearch (recording eng) s query n options =
      (Inl NamespaceDoesntExist, s\<lparr>db := Some (d1, calls @ [CallGetCollection (NameSpace opts)])\<rparr>)"
    using assms(1-3) SimilaritySearch_missing_namespace [of s options "(d, calls)" "recording eng"]
    by simp
  moreover have "\<exists>r d2 rest. AddDocuments (recording eng) s docs options uuids =
           (r, s\<lparr>db := Some (d2, calls @ CallGetOrCreateCollection (NameSpace opts) # rest)\<rparr>)"
    using AddDocuments_first_call [of s options d calls eng docs uuids] assms(1-3) by simp
  ultimately show ?thesis by simp
qed

theorem C6_witness:
  "SimilaritySearch (recording memEngine) (exampleStore ([], [])) ''city'' 3 [] =
     (Inl NamespaceDoesntExist, exampleStore ([], [CallGetCollection ''langchaingo'']))"
proof -
  let ?s = "exampleStore ([], []) :: ((string \<times> chromemgo_Document list) list \<times> string call list) Store"
  have h2: "validateOptions (getOptions (callDefaults ?s) []) = None"
    by (simp add: example_defs)
  have h3: "db ?s = Some ([], [])"
    by (simp add: example_defs)
  have h4: "GetCollection memEngine [] (NameSpace (getOptions (callDefaults ?s) [])) (ef ?s) = (None, [])"
    by (simp add: example_defs)
  show ?thesis
    using C6_search_never_creates [OF refl h2 h3 h4, of "''city''" 3 "[]" exampleUuids]
    by (simp add: example_defs)
qed

text \<open>
  Claim C7. The effective options of a call are the defaults, whose namespace is the
  default namespace of the store, with the option functions applied from first to last:
  an option applied later overrides, so a namespace option wins over the default and over
  every option before it. The namespace of the effective options is the one that
  \<open>AddDocuments\<close> and \<open>SimilaritySearch\<close> hand to the engine.
\<close>

theorem C7_options_in_order:
  assumes "validateOptions (getOptions (callDefaults s) options) = None"
    and "db s = Some (d, calls)"
  shows "getOptions (callDefaults s) [] = callDefaults s \<and>
         NameSpace (callDefaults s) = defaultCollectionName s \<and>
         getOptions defaults (opts @ [opt]) = opt (getOptions defaults opts) \<and>
         NameSpace (getOptions (callDefaults s) (opts @ [WithNameSpace n])) = n \<and>
         ((\<forall>opt\<in>set later. \<forall>x. NameSpace (opt x) = NameSpace x) \<longrightarrow>
            NameSpace (getOptions defaults (earlier @ WithNameSpace n # later)) = n) \<and>
         (\<exists>r d2 rest. AddDocuments (recording eng) s docs options uuids =
            (r, s\<lparr>db := Some (d2, calls @
               CallGetOrCreateCollection (NameSpace (getOptions (callDefaults s) options)) # rest)\<rparr>)) \<and>
         (\<exists>r d2 rest. SimilaritySearch (recording eng) s query k options =
            (r, s\<lparr>db := Some (d2, calls @
               CallGetCollection (NameSpace (getOptions (callDefaults s) options)) # rest)\<rparr>))"
proof (intro conjI impI)
  show "getOptions (callDefaults s) [] = callDefaults s"
    by (rule getOptions_Nil)
  show "NameSpace (callDefaults s) = defaultCollectionName s"
    by (simp add: callDefaults_def)
  show "getOptions defaults (opts @ [opt]) = opt (getOptions defaults opts)"
    by (rule getOptions_snoc)
  show "NameSpace (getOptions (callDefaults s) (opts @ [WithNameSpace n])) = n"
    by (simp add: getOptions_snoc WithNameSpace_def)
  show "\<exists>r d2 rest. AddDocuments (recording eng) s docs options uuids =
            (r, s\<lparr>db := Some (d2, calls @
               CallGetOrCreateCollection (NameSpace (getOptions (callDefaults s) options)) # rest)\<rparr>)"
    using assms by (rule AddDocuments_first_call)
  show "\<exists>r d2 rest. SimilaritySearch (recording eng) s query k options =
            (r, s\<lparr>db := Some (d2, calls @
               CallGetCollection (NameSpace (getOptions (callDefaults s) options)) # rest)\<rparr>)"
    using SimilaritySearch_first_call [OF assms, of eng query k] by blast
next
  assume keeps: "\<forall>opt\<in>set later. \<forall>x. NameSpace (opt x) = NameSpace x"
  have "getOptions defaults (earlier @ WithNameSpace n # later) =
        getOptions (WithNameSpace n (getOptions defaults earlier)) later"
    by (simp add: getOptions_def)
  then show "NameSpace (getOptions defaults (earlier @ WithNameSpace n # later)) = n"
    using getOptions_keeps_NameSpace [OF keeps] by (simp add: WithNameSpace_def)
qed

theorem C7_witness:
  "NameSpace (getOptions (callDefaults (exampleStore ([], []) :: ((string \<times> chromemgo_Document list) list \<times> string call list) Store))
      ([WithScoreThreshold (Fin 1)] @ [WithNameSpace ''cities''])) = ''cities'' \<and>
   (\<exists>r d2 rest. AddDocuments (recording memEngine) (exampleStore ([], [])) [tokyo] [WithNameSpace ''cities''] exampleUuids =
      (r, exampleStore (d2, CallGetOrCreateCollection ''cities'' # rest)))"
proof -
  let ?s = "exampleStore ([], []) :: ((string \<times> chromemgo_Document list) list \<times> string call list) Store"
  have h1: "validateOptions (getOptions (callDefaults ?s) [WithNameSpace ''cities'']) = None"
    by (simp add: example_defs WithNameSpace_def)
  have h2: "db ?s = Some ([], [])"
    by (simp add: example_defs)
  have n: "NameSpace (getOptions (callDefaults ?s) [WithNameSpace ''cities'']) = ''cities''"
    by (simp add: example_defs WithNameSpace_def)
  have s: "?s\<lparr>db := Some x\<rparr> = exampleStore x" for x
    by (simp add: example_defs)
  show ?thesis
    using C7_options_in_order [OF h1 h2, where opts = "[WithScoreThreshold (Fin 1)]"
        and n = "''cities''" and eng = memEngine and docs = "[tokyo]" and uuids = exampleUuids
        and later = "[]" and earlier = "[]" and defaults = "callDefaults ?s"
        and opt = "WithNameSpace ''cities''" and query = "''city''" and k = 3]
    by (simp add: n s) (simp add: WithNameSpace_def)
qed

subsection \<open>Search results\<close>

lemma filterByThreshold_eq:
  "filterByThreshold t docs res =
     res @ map resultDocument (filter (\<lambda>r. f32_ge (Similarity r) t) docs)"
  by (induction docs arbitrary: res) simp_all


lemma f32_ge_not_less: "f32_ge a b \<Longrightarrow> \<not> f32_less a b"
  by (simp add: f32_ge_def)

text \<open>
  Claim C2. With validated options (whose threshold \<open>t\<close> is hence neither below 0 nor
  above 1) and a successful query, \<open>SimilaritySearch\<close> returns exactly the results of
  the engine whose similarity is at least \<open>t\<close>, in the order of the engine, each with
  its content and its similarity as score; no returned document scores below \<open>t\<close>.
\<close>

theorem C2_threshold_filter:
  assumes "getOptions (callDefaults s) options = opts"
    and "validateOptions opts = None"
    and "db s = Some d"
    and "GetCollection eng d (NameSpace opts) (ef s) = (Some c, d1)"
    and "filtersWhere (Filters opts) = Inr w"
    and "Query eng c query n w d1 = (Inr results, d2)"
    and "t = ScoreThreshold opts"
    and "kept = filter (\<lambda>r. f32_ge (Similarity r) t) results"
  shows "\<not> f32_less t (Fin 0) \<and> \<not> f32_greater t (Fin 1) \<and>
         SimilaritySearch eng s query n options = (Inr (map resultDocument kept), s\<lparr>db := Some d2\<rparr>) \<and>
         map Score (map resultDocument kept) = map Similarity kept \<and>
         map PageContent (map resultDocument kept) = map ResContent kept \<and>
         (\<forall>doc\<in>set (map resultDocument kept). f32_ge (Score doc) t \<and> \<not> f32_less (Score doc) t)"
proof (intro conjI)
  show "\<not> f32_less t (Fin 0)" "\<not> f32_greater t (Fin 1)"
    using assms(2,7) by (auto simp: validateOptions_def split: if_splits)
  show "SimilaritySearch eng s query n options = (Inr (map resultDocument kept), s\<lparr>db := Some d2\<rparr>)"
    using assms by (simp add: SimilaritySearch_def Let_def filterByThreshold_eq)
  show "map Score (map resultDocument kept) = map Similarity kept"
    by (simp add: resultDocument_def)
  show "map PageContent (map resultDocument kept) = map ResContent kept"
    by (simp add: resultDocument_def)
  show "\<forall>doc\<in>set (map resultDocument kept). f32_ge (Score doc) t \<and> \<not> f32_less (Score doc) t"
    using assms(8) by (auto simp: resultDocument_def f32_ge_not_less)
qed

theorem C2_witness:
  "SimilaritySearch memEngine (exampleStore populated) ''city'' 2 [WithScoreThreshold (Fin (1 / 2))] =
     (Inr [\<lparr>PageContent = ''Rome'', Metadata = None, Score = Fin (3 / 4)\<rparr>], exampleStore populated)"
proof -
  let ?s = "exampleStore populated"
  let ?options = "[WithScoreThreshold (Fin (1 / 2))]"
  let ?opts = "getOptions (callDefaults ?s) ?options"
  let ?tokyo = "\<lparr>ResContent = ''Tokyo'', ResMetadata = Some [(''area'', ''622'')], Similarity = Fin (1 / 5)\<rparr>"
  let ?rome = "\<lparr>ResContent = ''Rome'', ResMetadata = None, Similarity = Fin (3 / 4)\<rparr>"
  have h2: "validateOptions ?opts = None"
    by (simp add: example_defs WithScoreThreshold_def)
  have h3: "db ?s = Some populated"
    by (simp add: example_defs)
  have h4: "GetCollection memEngine populated (NameSpace ?opts) (ef ?s) = (Some ''langchaingo'', populated)"
    by (simp add: example_defs WithScoreThreshold_def populated_def)
  have h5: "filtersWhere (Filters ?opts) = Inr None"
    by (simp add: example_defs WithScoreThreshold_def filtersWhere_def)
  have h6: "Query memEngine ''langchaingo'' ''city'' 2 None populated = (Inr [?tokyo, ?rome], populated)"
    by (simp add: example_defs populated_def)
  have h7: "Fin (1 / 2) = ScoreThreshold ?opts"
    by (simp add: example_defs WithScoreThreshold_def)
  have h8: "[?rome] = filter (\<lambda>r. f32_ge (Similarity r) (Fin (1 / 2))) [?tokyo, ?rome]"
    by (simp add: f32_ge_def)
  have s: "?s\<lparr>db := Some populated\<rparr> = ?s"
    by (simp add: example_defs)
  show ?thesis
    using C2_threshold_filter [OF refl h2 h3 h4 h5 h6 h7 h8] s
    by (simp add: resultDocument_def anyMetadata_def go_len_def)
qed

subsection \<open>Metadata\<close>













end
